theory Spec2Isabelle
  imports Complex_Main
begin

section \<open>Tables\<close>

text \<open>
  A table (a pandas \<open>DataFrame\<close> in \<open>cli.py\<close>) is an ordered sequence of named
  columns; a cell is missing (\<open>None\<close>) or holds a number or a text. Rows are aligned by
  position, so a well-formed table has columns of one length.
\<close>

datatype val = Num real | Txt string

type_synonym cell = "val option"

type_synonym column = "string \<times> cell list"

type_synonym table = "column list"

definition len_df :: "table \<Rightarrow> nat" where
  \<comment> \<open>\<open>len(df)\<close>: the number of rows.\<close>
  "len_df df = (case df of [] \<Rightarrow> 0 | c # _ \<Rightarrow> length (snd c))"

definition well_formed :: "table \<Rightarrow> bool" where
  "well_formed df = list_all (\<lambda>c. length (snd c) = len_df df) df"

definition slice_to :: "int \<Rightarrow> 'a list \<Rightarrow> 'a list" where
  \<comment> \<open>Python's \<open>xs[:n]\<close>: a negative \<open>n\<close> counts from the end.\<close>
  "slice_to n xs = (if 0 \<le> n then take (nat n) xs else take (length xs - nat (- n)) xs)"

definition df_head :: "int \<Rightarrow> table \<Rightarrow> table" where
  \<comment> \<open>pandas' \<open>df.head(n)\<close>, which is \<open>df.iloc[:n]\<close>: every column cut alike.\<close>
  "df_head n df = map (\<lambda>c. (fst c, slice_to n (snd c))) df"


section \<open>The data model of the analysis\<close>

text \<open>
  The records that \<open>cli.py\<close> receives from \<open>eda_cli.core\<close> and reads fields of
  (\<open>summary.n_rows\<close>, \<open>missing_df["missing_share"]\<close>, \<open>quality_flags[...]\<close>). The
  module \<open>core\<close> itself is not among the sources; the fields are those the specification
  lists for \<open>ColumnSummary\<close>, \<open>DatasetSummary\<close>, \<open>MissingTable\<close>, \<open>CategoryTable\<close> and
  \<open>QualityFlags\<close>, and those the tests read.
\<close>

datatype kind = Numeric | Categorical

record column_summary =
  name :: string
  kind :: kind
  non_missing :: nat
  missing :: nat
  missing_share :: real
  unique :: nat
  min_value :: "real option"
  max_value :: "real option"
  mean_value :: "real option"
  top_value :: "val option"

record dataset_summary =
  n_rows :: nat
  n_cols :: nat
  columns :: "column_summary list"

text \<open>A row of the missing table: column name, \<open>missing_count\<close>, \<open>missing_share\<close>.\<close>

type_synonym missing_df = "(string \<times> nat \<times> real) list"

text \<open>A row of a category table: \<open>value\<close>, \<open>count\<close>, \<open>share\<close>.\<close>

type_synonym category_table = "(val \<times> nat \<times> real) list"

text \<open>A correlation matrix by rows; an entry that is not a number is \<open>None\<close>.\<close>

type_synonym corr_df = "(string \<times> real option list) list"

record quality_flags =
  too_few_rows :: bool
  too_many_columns :: bool
  max_missing_share :: real
  too_many_missing :: bool
  constant_columns :: "string list"
  has_constant_columns :: bool
  id_duplicates_info :: "(string \<times> real) list"
  has_suspicious_id_duplicates :: bool
  high_cardinality_columns :: "(string \<times> nat) list"
  has_high_cardinality_categoricals :: bool
  many_zero_columns :: "(string \<times> real) list"
  has_many_zero_values :: bool
  quality_score :: real


section \<open>The file system and the command line's errors\<close>

text \<open>
  A path is its list of components, relative to the working directory (the empty path).
  The command line raises \<open>typer.BadParameter\<close> itself; creating a directory or writing
  a file can raise an \<open>OSError\<close>.
\<close>

type_synonym path = "string list"

definition str_path :: "path \<Rightarrow> string" where
  \<comment> \<open>\<open>str(path)\<close>: the components joined by a slash.\<close>
  "str_path p = (case p of [] \<Rightarrow> ''.'' | c # cs \<Rightarrow> foldl (\<lambda>s d. s @ ''/'' @ d) c cs)"

definition path_name :: "path \<Rightarrow> string" where
  \<comment> \<open>\<open>Path(path).name\<close>: the last component.\<close>
  "path_name p = (if p = [] then [] else last p)"

datatype exn = BadParameter string | OSError string

record report_doc =
  doc_title :: string
  doc_source :: string
  doc_n_rows :: nat
  doc_n_cols :: nat
  doc_max_hist_columns :: int
  doc_top_k_categories :: int
  doc_min_missing_share :: real
  doc_quality_flags :: quality_flags
  doc_problematic :: "(string \<times> nat \<times> real) list"
  doc_missing_empty :: bool
  doc_corr_empty :: bool
  doc_top_cats :: "(string \<times> category_table) list"

datatype content =
    Bytes string
  | SummaryCsv table
  | MissingCsv missing_df
  | CorrelationCsv corr_df
  | ReportMd report_doc
  | Rendered string

datatype node = Dir | File content

type_synonym fs = "path \<Rightarrow> node option"

definition is_dir :: "fs \<Rightarrow> path \<Rightarrow> bool" where
  "is_dir f p = (p = [] \<or> f p = Some Dir)"

definition is_file :: "fs \<Rightarrow> path \<Rightarrow> bool" where
  "is_file f p = (case f p of Some (File c) \<Rightarrow> True | _ \<Rightarrow> False)"

text \<open>An action on the file system returns its result or the exception it raised, and
  the file system it leaves.\<close>

type_synonym 'a io = "fs \<Rightarrow> (exn + 'a) \<times> fs"

definition io_return :: "'a \<Rightarrow> 'a io" where
  "io_return x f = (Inr x, f)"

definition io_bind :: "'a io \<Rightarrow> ('a \<Rightarrow> 'b io) \<Rightarrow> 'b io" where
  "io_bind m k f = (case m f of (Inl e, f') \<Rightarrow> (Inl e, f') | (Inr x, f') \<Rightarrow> k x f')"

definition ancestors :: "path \<Rightarrow> path list" where
  \<comment> \<open>The proper, non-empty prefixes of a path, outermost first.\<close>
  "ancestors p = map (\<lambda>k. take k p) [1..<length p]"

definition mkdir_parents :: "path \<Rightarrow> unit io" where
  \<comment> \<open>\<open>path.mkdir(parents=True, exist_ok=True)\<close>: an existing directory is accepted, a
      file in the way is an error, and every missing ancestor is created.\<close>
  "mkdir_parents p f =
     (if list_ex (is_file f) (ancestors p) then (Inl (OSError ''NotADirectoryError''), f)
      else if is_file f p then (Inl (OSError ''FileExistsError''), f)
      else (Inr (), fold (\<lambda>q g. g(q \<mapsto> Dir)) (ancestors p @ (if p = [] then [] else [p])) f))"

definition write_file :: "path \<Rightarrow> content \<Rightarrow> unit io" where
  \<comment> \<open>Opening a path for writing: its directory has to exist, and the path must not be
      a directory itself.\<close>
  "write_file p c f =
     (if f p = Some Dir then (Inl (OSError ''IsADirectoryError''), f)
      else if \<not> is_dir f (butlast p) then (Inl (OSError ''FileNotFoundError''), f)
      else (Inr (), f(p \<mapsto> File c)))"


section \<open>Loading the input: \<open>_load_csv\<close>\<close>

text \<open>
  \<open>pd.read_csv\<close> is the external parser: given what stands at the path, the separator
  and the encoding, it returns a table or raises; \<open>Inl\<close> carries the text of the
  exception (\<open>str(exc)\<close>). The calls \<open>_load_csv\<close> makes to the outside are recorded in
  the order it makes them.
\<close>

type_synonym reader = "node \<Rightarrow> string \<Rightarrow> string \<Rightarrow> string + table"

datatype io_call = PathExists path | ReadCsv path string string

definition msg_file :: string where
  \<comment> \<open>The UTF-8 bytes of the message's beginning, up to and with the opening quote.\<close>
  "msg_file = [CHR 0xD0, CHR 0xA4, CHR 0xD0, CHR 0xB0, CHR 0xD0, CHR 0xB9, CHR 0xD0, CHR 0xBB,
     CHR 0x20, CHR 0x27]"

definition msg_not_found :: string where
  \<comment> \<open>The UTF-8 bytes of the message's end, from the closing quote.\<close>
  "msg_not_found = [CHR 0x27, CHR 0x20, CHR 0xD0, CHR 0xBD, CHR 0xD0, CHR 0xB5, CHR 0x20,
     CHR 0xD0, CHR 0xBD, CHR 0xD0, CHR 0xB0, CHR 0xD0, CHR 0xB9, CHR 0xD0, CHR 0xB4, CHR 0xD0,
     CHR 0xB5, CHR 0xD0, CHR 0xBD]"

definition msg_read_failed :: string where
  \<comment> \<open>The UTF-8 bytes of the message before the exception's text; it ends \<open>CSV: \<close>.\<close>
  "msg_read_failed = [CHR 0xD0, CHR 0x9D, CHR 0xD0, CHR 0xB5, CHR 0x20, CHR 0xD1, CHR 0x83,
     CHR 0xD0, CHR 0xB4, CHR 0xD0, CHR 0xB0, CHR 0xD0, CHR 0xBB, CHR 0xD0, CHR 0xBE, CHR 0xD1,
     CHR 0x81, CHR 0xD1, CHR 0x8C, CHR 0x20, CHR 0xD0, CHR 0xBF, CHR 0xD1, CHR 0x80, CHR 0xD0,
     CHR 0xBE, CHR 0xD1, CHR 0x87, CHR 0xD0, CHR 0xB8, CHR 0xD1, CHR 0x82, CHR 0xD0, CHR 0xB0,
     CHR 0xD1, CHR 0x82, CHR 0xD1, CHR 0x8C, CHR 0x20, CHR 0x43, CHR 0x53, CHR 0x56, CHR 0x3A,
     CHR 0x20]"

definition load_csv :: "reader \<Rightarrow> fs \<Rightarrow> path \<Rightarrow> string \<Rightarrow> string \<Rightarrow> io_call list \<times> (exn + table)" where
  "load_csv rd f p sep enc =
     (case f p of
        None \<Rightarrow> ([PathExists p], Inl (BadParameter (msg_file @ str_path p @ msg_not_found)))
      | Some nd \<Rightarrow>
          (case rd nd sep enc of
             Inr df \<Rightarrow> ([PathExists p, ReadCsv p sep enc], Inr df)
           | Inl exc \<Rightarrow>
               ([PathExists p, ReadCsv p sep enc], Inl (BadParameter (msg_read_failed @ exc)))))"



section \<open>The command \<open>head\<close>\<close>

text \<open>
  What the command prints, one constructor for each \<open>typer.echo\<close> of the source with
  the values its text interpolates: the request that exceeds the file (\<open>n\<close>, \<open>n_rows\<close>),
  the announcement that all rows follow, the announcement of the first \<open>n\<close> of
  \<open>n_rows\<close>, the rows themselves (\<open>df.head(n).to_string(index=False)\<close>), the totals and
  the column names.
\<close>

datatype head_line =
    Requested int nat
  | ShowingAll nat
  | ShowingFirst int nat
  | Rows table
  | Totals nat nat
  | ColumnNames "string list"

definition head :: "reader \<Rightarrow> fs \<Rightarrow> path \<Rightarrow> int \<Rightarrow> string \<Rightarrow> string \<Rightarrow> exn + head_line list" where
  "head rd f p n sep enc =
     (case snd (load_csv rd f p sep enc) of
        Inl e \<Rightarrow> Inl e
      | Inr df \<Rightarrow>
          (let n_rows = len_df df in
           if n > int n_rows
           then Inr [Requested n n_rows, ShowingAll n_rows, Rows (df_head (int n_rows) df),
                     Totals n_rows (length df), ColumnNames (map fst df)]
           else Inr [ShowingFirst n n_rows, Rows (df_head n df),
                     Totals n_rows (length df), ColumnNames (map fst df)]))"



section \<open>The command \<open>report\<close>\<close>

text \<open>
  The options of the command (its \<open>typer\<close> parameters), and the functions it imports
  from \<open>eda_cli.core\<close> and \<open>eda_cli.viz\<close>. Neither module is among the sources, so
  \<open>report\<close> takes their functions as parameters: the analyses of \<open>core\<close> as functions
  of the table, the writers of \<open>viz\<close> as actions on the file system.
\<close>

record report_opts =
  opt_path :: path
  opt_out_dir :: path
  opt_sep :: string
  opt_encoding :: string
  opt_max_hist_columns :: int
  opt_top_k_categories :: int
  opt_title :: string
  opt_min_missing_share :: real

record collaborators =
  summarize_dataset_fn :: "table \<Rightarrow> dataset_summary"
  flatten_summary_for_print_fn :: "dataset_summary \<Rightarrow> table"
  missing_table_fn :: "table \<Rightarrow> missing_df"
  correlation_matrix_fn :: "table \<Rightarrow> corr_df"
  top_categories_fn :: "table \<Rightarrow> int \<Rightarrow> int \<Rightarrow> (string \<times> category_table) list"
  compute_quality_flags_fn :: "dataset_summary \<Rightarrow> missing_df \<Rightarrow> quality_flags"
  save_top_categories_tables_fn :: "(string \<times> category_table) list \<Rightarrow> path \<Rightarrow> unit io"
  plot_histograms_per_column_fn :: "table \<Rightarrow> path \<Rightarrow> int \<Rightarrow> unit io"
  plot_missing_matrix_fn :: "table \<Rightarrow> path \<Rightarrow> unit io"
  plot_correlation_heatmap_fn :: "table \<Rightarrow> path \<Rightarrow> unit io"

text \<open>Steps 1 and 2 of \<open>report\<close>: what it computes from the loaded table.\<close>

record analysis =
  an_summary :: dataset_summary
  an_summary_df :: table
  an_missing_df :: missing_df
  an_corr_df :: corr_df
  an_top_cats :: "(string \<times> category_table) list"
  an_quality_flags :: quality_flags
  an_problematic_cols :: "(string \<times> nat \<times> real) list"

definition report_analysis :: "collaborators \<Rightarrow> report_opts \<Rightarrow> table \<Rightarrow> analysis" where
  "report_analysis k opts df =
     (let summary = summarize_dataset_fn k df;
          summary_df = flatten_summary_for_print_fn k summary;
          missing_df = missing_table_fn k df;
          corr_df = correlation_matrix_fn k df;
          top_cats = top_categories_fn k df 20 (opt_top_k_categories opts);
          quality_flags = compute_quality_flags_fn k summary missing_df;
          problematic_cols =
            (if missing_df \<noteq> []
             then filter (\<lambda>r. snd (snd r) \<ge> opt_min_missing_share opts) missing_df
             else [])
      in \<lparr>an_summary = summary, an_summary_df = summary_df, an_missing_df = missing_df,
          an_corr_df = corr_df, an_top_cats = top_cats, an_quality_flags = quality_flags,
          an_problematic_cols = problematic_cols\<rparr>)"

text \<open>What the command prints when it is done.\<close>

datatype report_line =
    Generated string path
  | MainMarkdown path
  | TableFiles
  | Charts
  | ProblematicCount real nat

definition io_when :: "bool \<Rightarrow> unit io \<Rightarrow> unit io" where
  "io_when b m = (if b then m else io_return ())"

definition report_document :: "report_opts \<Rightarrow> analysis \<Rightarrow> report_doc" where
  \<comment> \<open>Step 4: the values the markdown report is written from; each category table is
      cut to its first five rows (\<open>table.head()\<close>).\<close>
  "report_document opts a =
     \<lparr>doc_title = opt_title opts,
      doc_source = path_name (opt_path opts),
      doc_n_rows = n_rows (an_summary a),
      doc_n_cols = n_cols (an_summary a),
      doc_max_hist_columns = opt_max_hist_columns opts,
      doc_top_k_categories = opt_top_k_categories opts,
      doc_min_missing_share = opt_min_missing_share opts,
      doc_quality_flags = an_quality_flags a,
      doc_problematic = an_problematic_cols a,
      doc_missing_empty = (an_missing_df a = []),
      doc_corr_empty = (an_corr_df a = []),
      doc_top_cats = map (\<lambda>t. (fst t, take 5 (snd t))) (an_top_cats a)\<rparr>"

definition report_write :: "collaborators \<Rightarrow> report_opts \<Rightarrow> table \<Rightarrow> analysis \<Rightarrow> report_line list io" where
  \<comment> \<open>Steps 3 to 6: the tables, the markdown report, the images, the closing lines.\<close>
  "report_write k opts df a =
     (let out_root = opt_out_dir opts in
      io_bind (write_file (out_root @ [''summary.csv'']) (SummaryCsv (an_summary_df a))) (\<lambda>_.
      io_bind (io_when (an_missing_df a \<noteq> [])
                 (write_file (out_root @ [''missing.csv'']) (MissingCsv (an_missing_df a)))) (\<lambda>_.
      io_bind (io_when (an_corr_df a \<noteq> [])
                 (write_file (out_root @ [''correlation.csv'']) (CorrelationCsv (an_corr_df a)))) (\<lambda>_.
      io_bind (save_top_categories_tables_fn k (an_top_cats a) (out_root @ [''top_categories''])) (\<lambda>_.
      io_bind (write_file (out_root @ [''report.md'']) (ReportMd (report_document opts a))) (\<lambda>_.
      io_bind (plot_histograms_per_column_fn k df out_root (opt_max_hist_columns opts)) (\<lambda>_.
      io_bind (plot_missing_matrix_fn k df (out_root @ [''missing_matrix.png''])) (\<lambda>_.
      io_bind (plot_correlation_heatmap_fn k df (out_root @ [''correlation_heatmap.png''])) (\<lambda>_.
      io_return
        ([Generated (opt_title opts) out_root, MainMarkdown (out_root @ [''report.md'']),
          TableFiles, Charts]
         @ (if an_problematic_cols a \<noteq> []
            then [ProblematicCount (opt_min_missing_share opts) (length (an_problematic_cols a))]
            else [])))))))))))"

definition report :: "collaborators \<Rightarrow> reader \<Rightarrow> report_opts \<Rightarrow> report_line list io" where
  "report k rd opts =
     io_bind (mkdir_parents (opt_out_dir opts)) (\<lambda>_.
     io_bind (\<lambda>f. (snd (load_csv rd f (opt_path opts) (opt_sep opts) (opt_encoding opts)), f)) (\<lambda>df.
     report_write k opts df (report_analysis k opts df)))"



section \<open>The analyses of \<open>eda_cli.core\<close>\<close>

text \<open>
  The module \<open>core\<close> is not among the sources: only its callers (\<open>cli.py\<close>) and its
  tests are. Each of its functions below is therefore written from the specification's
  description of it (sections 3, 4 and 8), in the specification's order of words.
\<close>

fun present :: "cell list \<Rightarrow> val list" where
  \<comment> \<open>The non-missing values of a column, in order.\<close>
  "present [] = []"
| "present (None # cs) = present cs"
| "present (Some v # cs) = v # present cs"

fun numbers :: "val list \<Rightarrow> real list" where
  "numbers [] = []"
| "numbers (Num x # vs) = x # numbers vs"
| "numbers (Txt s # vs) = numbers vs"

definition is_num :: "val \<Rightarrow> bool" where
  "is_num v = (case v of Num x \<Rightarrow> True | Txt s \<Rightarrow> False)"

definition is_numeric :: "cell list \<Rightarrow> bool" where
  \<comment> \<open>Modelled from the spec: the kind inference of \<open>summarize_dataset\<close> (section 4.1),
      "infer kind by checking whether all non-missing values parse as numeric; else
      treat as categorical". A column without a value passes the check.\<close>
  "is_numeric cs = list_all is_num (present cs)"

definition numeric_by_values :: "column \<Rightarrow> bool" where
  \<comment> \<open>The kinds of the columns of a table when each is inferred from its values.\<close>
  "numeric_by_values c = is_numeric (snd c)"

primrec first_seen :: "'a list \<Rightarrow> 'a list" where
  \<comment> \<open>The distinct elements of a list in the order of their first occurrence.\<close>
  "first_seen [] = []"
| "first_seen (x # xs) = x # removeAll x (first_seen xs)"

definition first_index :: "'a list \<Rightarrow> 'a \<Rightarrow> nat" where
  \<comment> \<open>The position at which an element is first encountered.\<close>
  "first_index xs v = length (takeWhile (\<lambda>x. x \<noteq> v) xs)"

definition value_counts :: "val list \<Rightarrow> (val \<times> nat) list" where
  \<comment> \<open>Modelled from the spec: the counting of \<open>top_categories\<close> (sections 3 and 4.4),
      "count occurrences of each distinct value", "sort descending by count", "ties
      broken by first-encountered order". The sort is stable.\<close>
  "value_counts vs =
     sort_key (\<lambda>p. - int (snd p)) (map (\<lambda>v. (v, count_list vs v)) (first_seen vs))"

definition category_table :: "val list \<Rightarrow> nat \<Rightarrow> category_table" where
  \<comment> \<open>Modelled from the spec: the table \<open>top_categories\<close> makes of one column's non-missing
      values (section 4.4), "keep the first \<open>top_k\<close> entries, compute share = count /
      non-missing_count for that column".\<close>
  "category_table vs top_k =
     map (\<lambda>p. (fst p, snd p, real (snd p) / real (length vs))) (take top_k (value_counts vs))"

definition top_categories ::
  "(column \<Rightarrow> bool) \<Rightarrow> table \<Rightarrow> nat \<Rightarrow> nat \<Rightarrow> (string \<times> category_table) list" where
  \<comment> \<open>Modelled from the spec: \<open>top_categories\<close> of \<open>eda_cli.core\<close> (section 4.4), "select
      the first \<open>max_columns\<close> non-numeric columns in table order", one category table
      for each. Which columns are numeric belongs to the table (section 3: each column
      holds values "of a single inferred kind") and cannot be read off a column without a
      value, which is numeric in section 4.1 and categorical in section 4.4: the kinds are
      the parameter \<open>numeric\<close>.\<close>
  "top_categories numeric df max_columns top_k =
     map (\<lambda>c. (fst c, category_table (present (snd c)) top_k))
       (take max_columns (filter (\<lambda>c. \<not> numeric c) df))"

definition missing_count :: "cell list \<Rightarrow> nat" where
  \<comment> \<open>Modelled from the spec: the "count of missing values" of a column.\<close>
  "missing_count cs = length (filter (\<lambda>c. c = None) cs)"

definition share_of :: "nat \<Rightarrow> nat \<Rightarrow> real" where
  \<comment> \<open>Modelled from the spec: "missing share (missing/total, 0 when total is 0)".\<close>
  "share_of k n = (if n = 0 then 0 else real k / real n)"

definition summarize_column :: "column \<Rightarrow> column_summary" where
  \<comment> \<open>Modelled from the spec: the \<open>ColumnSummary\<close> that \<open>summarize_dataset\<close> makes of one
      column (sections 3 and 4.1). Minimum, maximum and mean are absent when a numeric
      column has no value.\<close>
  "summarize_column c =
     (let cs = snd c; vs = present cs; xs = numbers vs; numeric = is_numeric cs in
      \<lparr>name = fst c,
       kind = (if numeric then Numeric else Categorical),
       non_missing = length vs,
       missing = missing_count cs,
       missing_share = share_of (missing_count cs) (length cs),
       unique = length (remdups vs),
       min_value = (if numeric \<and> xs \<noteq> [] then Some (fold min (tl xs) (hd xs)) else None),
       max_value = (if numeric \<and> xs \<noteq> [] then Some (fold max (tl xs) (hd xs)) else None),
       mean_value = (if numeric \<and> xs \<noteq> [] then Some (sum_list xs / real (length xs)) else None),
       top_value = (if numeric then None
                    else (case value_counts vs of [] \<Rightarrow> None | p # ps \<Rightarrow> Some (fst p)))\<rparr>)"

definition summarize_dataset :: "table \<Rightarrow> dataset_summary" where
  \<comment> \<open>Modelled from the spec: \<open>summarize_dataset\<close> of \<open>eda_cli.core\<close> (section 4.1).\<close>
  "summarize_dataset df =
     \<lparr>n_rows = len_df df, n_cols = length df, columns = map summarize_column df\<rparr>"

definition missing_table :: "table \<Rightarrow> missing_df" where
  \<comment> \<open>Modelled from the spec: \<open>missing_table\<close> of \<open>eda_cli.core\<close> (section 4.2), one row
      for each column of the table.\<close>
  "missing_table df =
     map (\<lambda>c. (fst c, missing_count (snd c), share_of (missing_count (snd c)) (length (snd c)))) df"


section \<open>Defaults and example inputs\<close>

definition default_title :: string where
  \<comment> \<open>The UTF-8 bytes of the default title; it begins \<open>EDA-\<close>.\<close>
  "default_title = [CHR 0x45, CHR 0x44, CHR 0x41, CHR 0x2D, CHR 0xD0, CHR 0xBE, CHR 0xD1,
     CHR 0x82, CHR 0xD1, CHR 0x87, CHR 0xD1, CHR 0x91, CHR 0xD1, CHR 0x82]"

definition default_opts :: "path \<Rightarrow> report_opts" where
  \<comment> \<open>The defaults of the options of \<open>report\<close>, as its signature declares them.\<close>
  "default_opts p =
     \<lparr>opt_path = p, opt_out_dir = [''reports''], opt_sep = '','', opt_encoding = ''utf-8'',
      opt_max_hist_columns = 6, opt_top_k_categories = 5, opt_title = default_title,
      opt_min_missing_share = 0.1\<rparr>"

text \<open>The table of the tests' \<open>_sample_df\<close>, the text of a file that holds it, a file
  system with that file, and a parser that reads that one file.\<close>

definition sample_df :: table where
  "sample_df =
     [(''age'', [Some (Num 10), Some (Num 20), Some (Num 30), None]),
      (''height'', [Some (Num 140), Some (Num 150), Some (Num 160), Some (Num 170)]),
      (''city'', [Some (Txt ''A''), Some (Txt ''B''), Some (Txt ''A''), None])]"

definition sample_csv :: string where
  "sample_csv = ''age,height,city'' @ [CHR 0x0A] @ ''10,140,A'' @ [CHR 0x0A] @ ''20,150,B''
     @ [CHR 0x0A] @ ''30,160,A'' @ [CHR 0x0A] @ '',170,'' @ [CHR 0x0A]"

definition sample_fs :: fs where
  "sample_fs = [[''data.csv''] \<mapsto> File (Bytes sample_csv), [''broken.csv''] \<mapsto> File (Bytes [CHR 0x22])]"

definition sample_reader :: reader where
  "sample_reader nd sep enc =
     (case nd of
        Dir \<Rightarrow> Inl ''Is a directory''
      | File c \<Rightarrow> (if c = Bytes sample_csv \<and> sep = '','' then Inr sample_df
                   else Inl ''Error tokenizing data''))"

text \<open>A table of 21 text columns, each of one row.\<close>

definition wide_df :: table where
  "wide_df = map (\<lambda>i. (replicate i (CHR ''c''), [Some (Txt ''v'')])) [1..<22]"

text \<open>An instance of the collaborators of \<open>report\<close>, to run it on the examples: the
  summary, the missing table and the category profiler as modelled above, with the kinds
  of the columns inferred from their values. The summary is flattened to the two columns
  the tests read. The quality heuristics, the correlation matrix and the writers of
  \<open>viz\<close> are not modelled: this instance raises no flag, has an empty matrix and writes
  nothing.\<close>

definition no_flags :: quality_flags where
  "no_flags =
     \<lparr>too_few_rows = False, too_many_columns = False, max_missing_share = 0,
      too_many_missing = False, constant_columns = [], has_constant_columns = False,
      id_duplicates_info = [], has_suspicious_id_duplicates = False,
      high_cardinality_columns = [], has_high_cardinality_categoricals = False,
      many_zero_columns = [], has_many_zero_values = False, quality_score = 1\<rparr>"

definition example_collaborators :: collaborators where
  "example_collaborators =
     \<lparr>summarize_dataset_fn = summarize_dataset,
      flatten_summary_for_print_fn =
        (\<lambda>s. [(''name'', map (\<lambda>c. Some (Txt (name c))) (columns s)),
              (''missing_share'', map (\<lambda>c. Some (Num (missing_share c))) (columns s))]),
      missing_table_fn = missing_table,
      correlation_matrix_fn = (\<lambda>df. []),
      top_categories_fn = (\<lambda>df m k. top_categories numeric_by_values df (nat m) (nat k)),
      compute_quality_flags_fn = (\<lambda>s m. no_flags),
      save_top_categories_tables_fn = (\<lambda>t p. io_return ()),
      plot_histograms_per_column_fn = (\<lambda>df p n. io_return ()),
      plot_missing_matrix_fn = (\<lambda>df p. io_return ()),
      plot_correlation_heatmap_fn = (\<lambda>df p. io_return ())\<rparr>"


section \<open>Loading: when it fails, and how\<close>



section \<open>The preview: which rows \<open>head\<close> shows\<close>

lemma len_df_take:
  "len_df (map (\<lambda>c. (fst c, take k (snd c))) df) = min k (len_df df)"
  by (cases df) (simp_all add: len_df_def min.commute)

lemma well_formed_take:
  "well_formed df \<Longrightarrow> well_formed (map (\<lambda>c. (fst c, take k (snd c))) df)"
  by (auto simp: well_formed_def len_df_take list_all_iff min.commute)

text \<open>
  Claim C8, as amended. Once the file has loaded, \<open>head\<close> does not fail for any \<open>n\<close>.
  For every \<open>n\<close> that is not negative it shows the first \<open>min(n, row_count)\<close> rows of
  every column: a request above the row count is announced and clamped to the row count,
  so all rows are shown; otherwise exactly the first \<open>n\<close> rows are shown.
\<close>

theorem head_shows_first_rows:
  assumes loaded: "snd (load_csv rd f p sep enc) = Inr df"
  shows "(0 \<le> n \<longrightarrow>
           (\<exists>shown.
              head rd f p n sep enc =
                Inr ((if int (len_df df) < n
                      then [Requested n (len_df df), ShowingAll (len_df df)]
                      else [ShowingFirst n (len_df df)])
                     @ [Rows shown, Totals (len_df df) (length df), ColumnNames (map fst df)])
              \<and> shown = map (\<lambda>c. (fst c, take (min (nat n) (len_df df)) (snd c))) df
              \<and> len_df shown = min (nat n) (len_df df)
              \<and> (well_formed df \<longrightarrow> well_formed shown)))
         \<and> (\<exists>out. head rd f p n sep enc = Inr out)"
proof -
  let ?shown = "map (\<lambda>c. (fst c, take (min (nat n) (len_df df)) (snd c))) df"
  have never_fails: "\<exists>out. head rd f p n sep enc = Inr out"
    using loaded by (simp add: head_def Let_def)
  have rows: "len_df ?shown = min (nat n) (len_df df)"
    by (simp add: len_df_take)
  have aligned: "well_formed df \<longrightarrow> well_formed ?shown"
    by (simp add: well_formed_take)
  have printed: "head rd f p n sep enc =
                Inr ((if int (len_df df) < n
                      then [Requested n (len_df df), ShowingAll (len_df df)]
                      else [ShowingFirst n (len_df df)])
                     @ [Rows ?shown, Totals (len_df df) (length df), ColumnNames (map fst df)])"
    if "0 \<le> n"
  proof (cases "int (len_df df) < n")
    case True
    then have "min (nat n) (len_df df) = len_df df" by linarith
    with True loaded show ?thesis
      by (simp add: head_def Let_def df_head_def slice_to_def)
  next
    case False
    with that have "min (nat n) (len_df df) = nat n" by linarith
    with False loaded that show ?thesis
      by (simp add: head_def Let_def df_head_def slice_to_def)
  qed
  from never_fails rows aligned printed show ?thesis by blast
qed

lemma sample_loaded:
  "snd (load_csv sample_reader sample_fs [''data.csv''] '','' ''utf-8'') = Inr sample_df"
  by (simp add: load_csv_def sample_fs_def sample_reader_def)

lemma len_sample_df: "len_df sample_df = 4"
  by (simp add: len_df_def sample_df_def)

theorem head_shows_first_rows_witness:
  "head sample_reader sample_fs [''data.csv''] 10 '','' ''utf-8'' =
     Inr [Requested 10 4, ShowingAll 4, Rows sample_df, Totals 4 3,
          ColumnNames [''age'', ''height'', ''city'']]
   \<and> head sample_reader sample_fs [''data.csv''] 2 '','' ''utf-8'' =
     Inr [ShowingFirst 2 4,
          Rows [(''age'', [Some (Num 10), Some (Num 20)]),
                (''height'', [Some (Num 140), Some (Num 150)]),
                (''city'', [Some (Txt ''A''), Some (Txt ''B'')])],
          Totals 4 3, ColumnNames [''age'', ''height'', ''city'']]"
proof -
  have all_rows: "map (\<lambda>c. (fst c, take 4 (snd c))) sample_df = sample_df"
    by (simp add: sample_df_def)
  have two_rows: "map (\<lambda>c. (fst c, take 2 (snd c))) sample_df =
     [(''age'', [Some (Num 10), Some (Num 20)]),
      (''height'', [Some (Num 140), Some (Num 150)]),
      (''city'', [Some (Txt ''A''), Some (Txt ''B'')])]"
    by (simp add: sample_df_def)
  have cols: "map fst sample_df = [''age'', ''height'', ''city'']" "length sample_df = 3"
    by (simp_all add: sample_df_def)
  from head_shows_first_rows [OF sample_loaded, of 10]
  have 1: "head sample_reader sample_fs [''data.csv''] 10 '','' ''utf-8'' =
     Inr [Requested 10 4, ShowingAll 4, Rows sample_df, Totals 4 3,
          ColumnNames [''age'', ''height'', ''city'']]"
    by (simp add: len_sample_df all_rows cols)
  from head_shows_first_rows [OF sample_loaded, of 2]
  have 2: "head sample_reader sample_fs [''data.csv''] 2 '','' ''utf-8'' =
     Inr [ShowingFirst 2 4,
          Rows [(''age'', [Some (Num 10), Some (Num 20)]),
                (''height'', [Some (Num 140), Some (Num 150)]),
                (''city'', [Some (Txt ''A''), Some (Txt ''B'')])],
          Totals 4 3, ColumnNames [''age'', ''height'', ''city'']]"
    by (simp add: len_sample_df two_rows cols)
  from 1 2 show ?thesis by blast
qed

text \<open>
  The claim as stated speaks of every requested count, and the option \<open>n\<close> is an
  integer: at \<open>n = -1\<close> the command passes \<open>-1\<close> on to \<open>df.head\<close> and shows three of
  the four rows of the tests' sample table, which is not \<open>min(n, row_count)\<close> rows.
\<close>

theorem head_negative_count_counterexample:
  "head sample_reader sample_fs [''data.csv''] (- 1) '','' ''utf-8'' =
     Inr [ShowingFirst (- 1) 4,
          Rows [(''age'', [Some (Num 10), Some (Num 20), Some (Num 30)]),
                (''height'', [Some (Num 140), Some (Num 150), Some (Num 160)]),
                (''city'', [Some (Txt ''A''), Some (Txt ''B''), Some (Txt ''A'')])],
          Totals 4 3, ColumnNames [''age'', ''height'', ''city'']]
   \<and> int (len_df (df_head (- 1) sample_df)) \<noteq> min (- 1) (int (len_df sample_df))"
proof -
  have cut: "df_head (- 1) sample_df =
     [(''age'', [Some (Num 10), Some (Num 20), Some (Num 30)]),
      (''height'', [Some (Num 140), Some (Num 150), Some (Num 160)]),
      (''city'', [Some (Txt ''A''), Some (Txt ''B''), Some (Txt ''A'')])]"
    by (simp add: df_head_def slice_to_def sample_df_def)
  have cols: "map fst sample_df = [''age'', ''height'', ''city'']" "length sample_df = 3"
    by (simp_all add: sample_df_def)
  have printed: "head sample_reader sample_fs [''data.csv''] (- 1) '','' ''utf-8'' =
     Inr [ShowingFirst (- 1) 4, Rows (df_head (- 1) sample_df), Totals 4 3,
          ColumnNames [''age'', ''height'', ''city'']]"
    by (simp add: head_def sample_loaded len_sample_df cols Let_def)
  have shown: "len_df (df_head (- 1) sample_df) = 3"
    by (simp add: cut len_df_def)
  from printed cut shown len_sample_df show ?thesis by simp
qed

section \<open>The report: what its options reach\<close>

lemma report_analysis_ignores_cap_argument:
  "report_analysis (k\<lparr>top_categories_fn := \<lambda>d m t. top_categories_fn k d 20 t\<rparr>) opts df
   = report_analysis k opts df"
  by (simp add: report_analysis_def)

lemma report_write_ignores_cap_argument:
  "report_write (k\<lparr>top_categories_fn := g\<rparr>) opts df a = report_write k opts df a"
  by (simp add: report_write_def)

text \<open>
  Claim C9, as amended. The options of \<open>report\<close> are the output directory, the
  separator, the encoding, the number of histogram columns, the number of top values per
  categorical column, the title and the missing-share threshold of the problematic
  columns, each with the default its signature declares. The number of categorical
  columns the category profiler is bounded to is not among them: whatever the options,
  \<open>top_categories\<close> is called with \<open>max_columns = 20\<close> and \<open>top_k = top_k_categories\<close>,
  so a profiler that ignores the cap it is given and always uses 20 leaves every run of
  \<open>report\<close> unchanged. The quality flags are computed from the summary and the missing
  table alone, with no threshold passed to them.
\<close>

theorem report_column_cap_is_fixed:
  "an_top_cats (report_analysis k opts df) = top_categories_fn k df 20 (opt_top_k_categories opts)
   \<and> report (k\<lparr>top_categories_fn := \<lambda>d m t. top_categories_fn k d 20 t\<rparr>) rd opts f
       = report k rd opts f
   \<and> an_quality_flags (report_analysis k opts df)
       = compute_quality_flags_fn k (summarize_dataset_fn k df) (missing_table_fn k df)
   \<and> an_problematic_cols (report_analysis k opts df)
       = filter (\<lambda>r. opt_min_missing_share opts \<le> snd (snd r)) (missing_table_fn k df)
   \<and> opt_out_dir (default_opts p) = [''reports'']
   \<and> opt_sep (default_opts p) = '',''
   \<and> opt_encoding (default_opts p) = ''utf-8''
   \<and> opt_max_hist_columns (default_opts p) = 6
   \<and> opt_top_k_categories (default_opts p) = 5
   \<and> opt_title (default_opts p) = default_title
   \<and> opt_min_missing_share (default_opts p) = 0.1"
proof -
  have cap: "an_top_cats (report_analysis k opts df)
             = top_categories_fn k df 20 (opt_top_k_categories opts)"
    by (simp add: report_analysis_def Let_def)
  have same: "report (k\<lparr>top_categories_fn := \<lambda>d m t. top_categories_fn k d 20 t\<rparr>) rd opts f
              = report k rd opts f"
    unfolding report_def
    by (simp only: report_analysis_ignores_cap_argument report_write_ignores_cap_argument)
  have flags: "an_quality_flags (report_analysis k opts df)
       = compute_quality_flags_fn k (summarize_dataset_fn k df) (missing_table_fn k df)"
    by (simp add: report_analysis_def Let_def)
  have prob: "an_problematic_cols (report_analysis k opts df)
       = filter (\<lambda>r. opt_min_missing_share opts \<le> snd (snd r)) (missing_table_fn k df)"
    by (simp add: report_analysis_def Let_def)
  have defaults: "opt_out_dir (default_opts p) = [''reports'']"
    "opt_sep (default_opts p) = '',''" "opt_encoding (default_opts p) = ''utf-8''"
    "opt_max_hist_columns (default_opts p) = 6" "opt_top_k_categories (default_opts p) = 5"
    "opt_title (default_opts p) = default_title" "opt_min_missing_share (default_opts p) = 0.1"
    by (simp_all add: default_opts_def)
  from cap same flags prob defaults show ?thesis by simp
qed

lemma wide_df_text: "filter (\<lambda>c. \<not> numeric_by_values c) wide_df = wide_df"
  by (simp add: wide_df_def numeric_by_values_def is_numeric_def is_num_def filter_map comp_def)

lemma length_wide_df: "length wide_df = 21"
  by (simp add: wide_df_def)

lemma length_top_categories:
  "length (top_categories numeric df m t) = min m (length (filter (\<lambda>c. \<not> numeric c) df))"
  by (simp add: top_categories_def min.commute)

theorem report_column_cap_is_fixed_witness:
  "length (an_top_cats (report_analysis example_collaborators (default_opts [''wide.csv'']) wide_df))
   = 20"
proof -
  have "top_categories_fn example_collaborators wide_df 20 5
        = top_categories numeric_by_values wide_df 20 5"
    by (simp add: example_collaborators_def)
  with report_column_cap_is_fixed
         [of example_collaborators "default_opts [''wide.csv'']" wide_df sample_reader sample_fs
             "[''wide.csv'']"]
  show ?thesis
    by (simp add: length_top_categories wide_df_text length_wide_df)
qed

text \<open>
  The claim as stated lets the caller override the column cap. On a table of 21 text
  columns, which the profiler covers when it is given the cap 21, the report profiles 20
  columns even with the two numeric options of the command raised to 21.
\<close>

theorem report_column_cap_counterexample:
  "length (top_categories numeric_by_values wide_df 21 21) = 21
   \<and> length (an_top_cats
        (report_analysis example_collaborators
           ((default_opts [''wide.csv''])
              \<lparr>opt_max_hist_columns := 21, opt_top_k_categories := 21\<rparr>)
           wide_df)) = 20"
  by (simp add: report_analysis_def Let_def example_collaborators_def length_top_categories
      wide_df_text length_wide_df)


section \<open>The report: a load that fails\<close>











section \<open>The category profiler\<close>

lemma set_first_seen: "set (first_seen xs) = set xs"
  by (induction xs) auto

lemma distinct_first_seen: "distinct (first_seen xs)"
  by (induction xs) (auto simp: distinct_removeAll)

lemma first_index_Cons:
  "first_index (x # xs) v = (if v = x then 0 else Suc (first_index xs v))"
  by (auto simp: first_index_def)

lemma first_seen_in_order:
  "sorted_wrt (\<lambda>a b. first_index xs a < first_index xs b) (first_seen xs)"
proof (induction xs)
  case Nil
  show ?case by simp
next
  case (Cons x xs)
  have "sorted_wrt (\<lambda>a b. first_index xs a < first_index xs b) (removeAll x (first_seen xs))"
    using Cons.IH by (simp add: removeAll_filter_not_eq sorted_wrt_filter)
  then have "sorted_wrt (\<lambda>a b. first_index (x # xs) a < first_index (x # xs) b)
               (removeAll x (first_seen xs))"
    by (rule sorted_wrt_mono_rel [rotated]) (auto simp: first_index_Cons)
  then show ?case
    by (auto simp: first_index_Cons)
qed

lemma insort_key_lex:
  fixes f :: "'a \<Rightarrow> 'b::linorder"
  assumes "sorted_wrt (\<lambda>a b. f a < f b \<or> (f a = f b \<and> R a b)) ys"
      and "\<forall>y \<in> set ys. R x y"
  shows "sorted_wrt (\<lambda>a b. f a < f b \<or> (f a = f b \<and> R a b)) (insort_key f x ys)"
  using assms
proof (induction ys)
  case Nil
  show ?case by simp
next
  case (Cons y ys)
  show ?case
  proof (cases "f x \<le> f y")
    case True
    have "f x < f z \<or> (f x = f z \<and> R x z)" if "z \<in> set (y # ys)" for z
    proof -
      have "f y \<le> f z" using Cons.prems(1) that by auto
      with True have "f x \<le> f z" by simp
      moreover have "R x z" using Cons.prems(2) that by auto
      ultimately show ?thesis by auto
    qed
    with True Cons.prems(1) show ?thesis by simp
  next
    case False
    then have "f y < f x" by simp
    moreover have "sorted_wrt (\<lambda>a b. f a < f b \<or> (f a = f b \<and> R a b)) (insort_key f x ys)"
      using Cons by simp
    ultimately show ?thesis
      using False Cons.prems(1) by (auto simp: set_insort_key)
  qed
qed

lemma sort_key_lex:
  fixes f :: "'a \<Rightarrow> 'b::linorder"
  assumes "sorted_wrt R xs"
  shows "sorted_wrt (\<lambda>a b. f a < f b \<or> (f a = f b \<and> R a b)) (sort_key f xs)"
  using assms by (induction xs) (auto intro: insort_key_lex)


lemma value_counts_set:
  "set (value_counts vs) = (\<lambda>v. (v, count_list vs v)) ` set vs"
  by (simp add: value_counts_def set_first_seen)

lemma value_counts_distinct: "distinct (map fst (value_counts vs))"
proof -
  have "distinct (map (\<lambda>v. (v, count_list vs v)) (first_seen vs))"
    by (simp add: distinct_map distinct_first_seen inj_on_def)
  then have "distinct (value_counts vs)"
    by (simp add: value_counts_def)
  moreover have "inj_on fst (set (value_counts vs))"
    by (auto simp: value_counts_set inj_on_def)
  ultimately show ?thesis by (simp add: distinct_map)
qed

lemma value_counts_lex:
  "sorted_wrt (\<lambda>a b. snd b < snd a \<or> (snd a = snd b \<and> first_index vs (fst a) < first_index vs (fst b)))
     (value_counts vs)"
proof -
  let ?g = "\<lambda>v. (v, count_list vs v)"
  let ?R = "\<lambda>a b. first_index vs (fst a) < first_index vs (fst b)"
  let ?f = "\<lambda>p::'a \<times> nat. - int (snd p)"
  have "sorted_wrt ?R (map ?g (first_seen vs))"
    by (simp add: sorted_wrt_map first_seen_in_order)
  then have "sorted_wrt (\<lambda>a b. ?f a < ?f b \<or> (?f a = ?f b \<and> ?R a b)) (value_counts vs)"
    unfolding value_counts_def by (rule sort_key_lex)
  then show ?thesis
    by (rule sorted_wrt_mono_rel [rotated]) auto
qed

lemma present_set: "set (present cs) = {v. Some v \<in> set cs}"
  by (induction cs rule: present.induct) auto

lemma present_count: "count_list (present cs) v = count_list cs (Some v)"
  by (induction cs rule: present.induct) auto

lemma present_length: "length (present cs) = length cs - missing_count cs"
proof -
  have "length (present cs) + missing_count cs = length cs"
    by (induction cs rule: present.induct) (auto simp: missing_count_def)
  then show ?thesis by simp
qed

lemma category_table_length: "length (category_table vs k) \<le> k"
  by (simp add: category_table_def)

lemma category_table_distinct: "distinct (map fst (category_table vs k))"
proof -
  have "map fst (category_table vs k) = take k (map fst (value_counts vs))"
    by (simp add: category_table_def take_map comp_def)
  then show ?thesis by (simp add: value_counts_distinct distinct_take)
qed

lemma category_table_lex:
  "sorted_wrt (\<lambda>a b. fst (snd b) < fst (snd a)
                  \<or> (fst (snd a) = fst (snd b) \<and> first_index vs (fst a) < first_index vs (fst b)))
     (category_table vs k)"
  unfolding category_table_def
  by (simp add: sorted_wrt_map sorted_wrt_take value_counts_lex)

lemma category_table_entry:
  assumes "r \<in> set (category_table vs k)"
  shows "fst r \<in> set vs" and "fst (snd r) = count_list vs (fst r)"
    and "snd (snd r) = real (fst (snd r)) / real (length vs)"
proof -
  from assms obtain p where p: "p \<in> set (value_counts vs)"
    and r: "r = (fst p, snd p, real (snd p) / real (length vs))"
    by (auto simp: category_table_def dest: in_set_takeD)
  from p have "fst p \<in> set vs" "snd p = count_list vs (fst p)"
    by (auto simp: value_counts_set)
  with r show "fst r \<in> set vs" "fst (snd r) = count_list vs (fst r)"
    "snd (snd r) = real (fst (snd r)) / real (length vs)"
    by simp_all
qed

lemma category_table_top:
  assumes v: "v \<in> set vs" and out: "v \<notin> fst ` set (category_table vs k)"
  shows "length (category_table vs k) = k"
    and "\<forall>r \<in> set (category_table vs k). count_list vs v \<le> fst (snd r)"
proof -
  let ?vc = "value_counts vs"
  let ?p = "(v, count_list vs v)"
  have fsts: "fst ` set (category_table vs k) = fst ` set (take k ?vc)"
    by (force simp: category_table_def)
  from v have "?p \<in> set ?vc" by (simp add: value_counts_set)
  then have "?p \<in> set (take k ?vc) \<union> set (drop k ?vc)"
    by (metis append_take_drop_id set_append)
  moreover from out fsts have "?p \<notin> set (take k ?vc)" by force
  ultimately have dropped: "?p \<in> set (drop k ?vc)" by simp
  then have "k < length ?vc" by (cases "k < length ?vc") auto
  then show "length (category_table vs k) = k"
    by (simp add: category_table_def)
  have "sorted_wrt (\<lambda>a b. snd b < snd a \<or> (snd a = snd b \<and> first_index vs (fst a) < first_index vs (fst b)))
          (take k ?vc @ drop k ?vc)"
    by (simp add: value_counts_lex)
  then have "\<forall>a \<in> set (take k ?vc). \<forall>b \<in> set (drop k ?vc).
               snd b < snd a \<or> (snd a = snd b \<and> first_index vs (fst a) < first_index vs (fst b))"
    unfolding sorted_wrt_append by blast
  with dropped have "\<forall>a \<in> set (take k ?vc). snd ?p \<le> snd a"
    by fastforce
  then show "\<forall>r \<in> set (category_table vs k). count_list vs v \<le> fst (snd r)"
    by (auto simp: category_table_def)
qed

lemma category_table_of_column:
  fixes cells :: "cell list" and top_k :: nat
  defines "tab \<equiv> category_table (present cells) top_k"
  shows "length tab \<le> top_k"
    and "distinct (map fst tab)"
    and "sorted_wrt (\<lambda>a b. fst (snd b) \<le> fst (snd a)) tab"
    and "sorted_wrt (\<lambda>a b. fst (snd a) = fst (snd b) \<longrightarrow>
                first_index (present cells) (fst a) < first_index (present cells) (fst b)) tab"
    and "\<forall>r \<in> set tab. Some (fst r) \<in> set cells
            \<and> fst (snd r) = count_list cells (Some (fst r))
            \<and> snd (snd r) = real (fst (snd r)) / real (length cells - missing_count cells)"
    and "\<forall>v. Some v \<in> set cells \<and> v \<notin> fst ` set tab \<longrightarrow>
            length tab = top_k \<and> (\<forall>r \<in> set tab. count_list cells (Some v) \<le> fst (snd r))"
    and "list_all (\<lambda>c. c = None) cells \<longrightarrow> tab = []"
proof -
  let ?vs = "present cells"
  have lex: "sorted_wrt (\<lambda>a b. fst (snd b) < fst (snd a)
                  \<or> (fst (snd a) = fst (snd b) \<and> first_index ?vs (fst a) < first_index ?vs (fst b)))
               tab"
    unfolding tab_def by (rule category_table_lex)
  show "length tab \<le> top_k"
    unfolding tab_def by (rule category_table_length)
  show "distinct (map fst tab)"
    unfolding tab_def by (rule category_table_distinct)
  show "sorted_wrt (\<lambda>a b. fst (snd b) \<le> fst (snd a)) tab"
    using lex by (rule sorted_wrt_mono_rel [rotated]) auto
  show "sorted_wrt (\<lambda>a b. fst (snd a) = fst (snd b) \<longrightarrow>
                first_index ?vs (fst a) < first_index ?vs (fst b)) tab"
    using lex by (rule sorted_wrt_mono_rel [rotated]) auto
  show entries: "\<forall>r \<in> set tab. Some (fst r) \<in> set cells
            \<and> fst (snd r) = count_list cells (Some (fst r))
            \<and> snd (snd r) = real (fst (snd r)) / real (length cells - missing_count cells)"
  proof
    fix r assume "r \<in> set tab"
    then have r: "r \<in> set (category_table ?vs top_k)" by (simp add: tab_def)
    from category_table_entry [OF r]
    show "Some (fst r) \<in> set cells
            \<and> fst (snd r) = count_list cells (Some (fst r))
            \<and> snd (snd r) = real (fst (snd r)) / real (length cells - missing_count cells)"
      by (simp add: present_set present_count present_length)
  qed
  show "\<forall>v. Some v \<in> set cells \<and> v \<notin> fst ` set tab \<longrightarrow>
            length tab = top_k \<and> (\<forall>r \<in> set tab. count_list cells (Some v) \<le> fst (snd r))"
  proof (intro allI impI)
    fix v assume "Some v \<in> set cells \<and> v \<notin> fst ` set tab"
    then have "v \<in> set ?vs" "v \<notin> fst ` set (category_table ?vs top_k)"
      by (simp_all add: present_set tab_def)
    from category_table_top [OF this]
    show "length tab = top_k \<and> (\<forall>r \<in> set tab. count_list cells (Some v) \<le> fst (snd r))"
      by (simp add: present_count tab_def)
  qed
  show "list_all (\<lambda>c. c = None) cells \<longrightarrow> tab = []"
  proof
    assume "list_all (\<lambda>c. c = None) cells"
    then have "\<forall>r. Some (fst r) \<notin> set cells" by (auto simp: list_all_iff)
    with entries show "tab = []" by (cases tab) auto
  qed
qed

text \<open>
  Claim C6. For every table, whatever the kinds of its columns, and for every
  \<open>max_columns\<close> and \<open>top_k\<close>, \<open>top_categories\<close> profiles the first \<open>max_columns\<close>
  non-numeric columns in table order, one table under each column's name. Each table has
  at most \<open>top_k\<close> rows, of distinct values, sorted by count descending, with equal counts
  in the order in which the values are first encountered in the column. Every row holds
  a non-missing value of the column, the number of cells that hold it, and that count
  divided by the number of non-missing cells. A value of the column that is left out was
  cut by \<open>top_k\<close>, and its count is at most every count in the table. A selected column
  without a non-missing value has an entry, and its table is empty.
\<close>

theorem top_categories_tables:
  "list_all2
     (\<lambda>col res.
        fst res = fst col
        \<and> length (snd res) \<le> top_k
        \<and> distinct (map fst (snd res))
        \<and> sorted_wrt (\<lambda>a b. fst (snd b) \<le> fst (snd a)) (snd res)
        \<and> sorted_wrt (\<lambda>a b. fst (snd a) = fst (snd b) \<longrightarrow>
              first_index (present (snd col)) (fst a) < first_index (present (snd col)) (fst b))
            (snd res)
        \<and> (\<forall>r \<in> set (snd res).
              Some (fst r) \<in> set (snd col)
              \<and> fst (snd r) = count_list (snd col) (Some (fst r))
              \<and> snd (snd r)
                  = real (fst (snd r)) / real (length (snd col) - missing_count (snd col)))
        \<and> (\<forall>v. Some v \<in> set (snd col) \<and> v \<notin> fst ` set (snd res) \<longrightarrow>
              length (snd res) = top_k
              \<and> (\<forall>r \<in> set (snd res). count_list (snd col) (Some v) \<le> fst (snd r)))
        \<and> (list_all (\<lambda>c. c = None) (snd col) \<longrightarrow> snd res = []))
     (take max_columns (filter (\<lambda>c. \<not> numeric c) df))
     (top_categories numeric df max_columns top_k)"
  (is "list_all2 ?P ?cols ?res")
proof -
  have each: "?P col (fst col, category_table (present (snd col)) top_k)" for col
    unfolding fst_conv snd_conv
    using category_table_of_column [of "snd col" top_k]
    by (intro conjI refl) assumption+
  have "list_all2 ?P ?cols (map (\<lambda>c. (fst c, category_table (present (snd c)) top_k)) ?cols)"
    unfolding list_all2_map2 by (rule list_all2_refl) (rule each)
  then show ?thesis
    by (simp only: top_categories_def)
qed

text \<open>
  The table of the tests' \<open>_sample_df\<close> with a fourth column, \<open>notes\<close>, that is
  categorical and holds no value: with \<open>age\<close> and \<open>height\<close> numeric, \<open>max_columns = 5\<close>
  and \<open>top_k = 2\<close>, the profile has \<open>city\<close> with its two values and \<open>notes\<close> with the
  empty table.
\<close>

lemma top_categories_sample:
  "top_categories (\<lambda>c. fst c = ''age'' \<or> fst c = ''height'')
     (sample_df @ [(''notes'', [None, None, None, None])]) 5 2
   = [(''city'', [(Txt ''A'', 2, 2 / 3), (Txt ''B'', 1, 1 / 3)]), (''notes'', [])]"
  by (simp add: top_categories_def sample_df_def category_table_def value_counts_def)

theorem top_categories_tables_witness:
  "top_categories (\<lambda>c. fst c = ''age'' \<or> fst c = ''height'')
     (sample_df @ [(''notes'', [None, None, None, None])]) 5 2
   = [(''city'', [(Txt ''A'', 2, 2 / 3), (Txt ''B'', 1, 1 / 3)]), (''notes'', [])]
   \<and> take 5 (filter (\<lambda>c. \<not> (fst c = ''age'' \<or> fst c = ''height''))
               (sample_df @ [(''notes'', [None, None, None, None])]))
     = [(''city'', [Some (Txt ''A''), Some (Txt ''B''), Some (Txt ''A''), None]),
        (''notes'', [None, None, None, None])]"
proof -
  let ?numeric = "\<lambda>c::column. fst c = ''age'' \<or> fst c = ''height''"
  let ?df = "sample_df @ [(''notes'', [None, None, None, None])]"
  have selected: "take 5 (filter (\<lambda>c. \<not> ?numeric c) ?df)
     = [(''city'', [Some (Txt ''A''), Some (Txt ''B''), Some (Txt ''A''), None]),
        (''notes'', [None, None, None, None])]"
    by (simp add: sample_df_def)
  from top_categories_tables [of 2 5 ?numeric ?df, THEN list_all2_lengthD]
  have "length (top_categories ?numeric ?df 5 2) = length (take 5 (filter (\<lambda>c. \<not> ?numeric c) ?df))"
    by (rule sym)
  with selected top_categories_sample show ?thesis
    by simp
qed

end
